theory Spec2Isabelle
  imports Main "HOL-Library.Word"
begin

section \<open>The swap-in functions of the storage manager\<close>

text \<open>
  The source file \<^verbatim>\<open>store_swapin.cc\<close> holds three functions:
  \<open>storeSwapInStart\<close>, which opens a read handle for a client of a swapped-out entry,
  and the two callbacks it registers with that handle, \<open>storeSwapInFileNotify\<close> and
  \<open>storeSwapInFileClosed\<close>. They work on objects reached through pointers
  (\<open>sc->entry\<close>, \<open>sc->swapin_sio\<close>), and several clients may point at one entry, so
  the model is an explicit store: one total map per object type, from addresses to
  objects. A pointer that the code compares with \<open>NULL\<close> is an \<open>option\<close>.
  An \<open>assert\<close> that fails stops the program; it is the \<open>Inl\<close> branch of the result.
\<close>

subsection \<open>Data\<close>

type_synonym entry_ptr = nat
type_synonym client_ptr = nat
type_synonym sio_ptr = nat
type_synonym memobj_ptr = nat
type_synonym cbdata_ptr = nat
type_synonym buf_ptr = nat

text \<open>A client callback (\<open>STCB *\<close>) is a function pointer; the model keeps its address.\<close>

type_synonym STCB = nat

datatype mem_status_t = NOT_IN_MEMORY | IN_MEMORY

datatype swap_status_t = SWAPOUT_NONE | SWAPOUT_WRITING | SWAPOUT_DONE

text \<open>
  The fields of \<open>StoreEntry\<close> that the three functions read or write. The struct is
  declared outside these sources; the integer fields are modelled as \<open>int\<close>, the flags
  as a 16-bit set.
\<close>

record StoreEntry =
  mem_status :: mem_status_t
  swap_status :: swap_status_t
  flags :: "16 word"
  swap_filen :: int
  swap_dirn :: int
  mem_obj :: "memobj_ptr option"

record store_client =
  entry :: entry_ptr
  callback :: "STCB option"
  callback_data :: cbdata_ptr
  copy_buf :: buf_ptr
  swapin_sio :: "sio_ptr option"

record storeIOState =
  sio_swap_filen :: int
  sio_swap_dirn :: int

text \<open>
  The global counter \<open>statCounter.swap.ins\<close> is a C \<open>int\<close>: a 32-bit word, read as a
  signed number with \<open>sint\<close>.
\<close>

type_synonym c_int = "32 word"

text \<open>
  The program state: the three stores and the counter. The record is extensible; the
  extension stands for the rest of the process state, which only the external functions
  touch.
\<close>

record world =
  entries :: "entry_ptr \<Rightarrow> StoreEntry"
  clients :: "client_ptr \<Rightarrow> store_client"
  sios :: "sio_ptr \<Rightarrow> storeIOState"
  statCounter_swap_ins :: c_int

datatype error =
    Assert_mem_status    \<comment> \<open>line 45: \<open>assert(e->mem_status == NOT_IN_MEMORY)\<close>\<close>
  | Assert_mem_obj       \<comment> \<open>line 61: \<open>assert(e->mem_obj != NULL)\<close>\<close>
  | Assert_errflag       \<comment> \<open>line 79: \<open>assert(errflag <= 0)\<close>\<close>

subsection \<open>What squid.h declares and these sources do not define\<close>

text \<open>
  Modelled from the spec: the macro \<open>EBIT_TEST\<close> is not in these sources. The spec
  gives \<open>flags\<close> as a bitset that includes VALIDATED, so the test reads one bit.
\<close>

definition EBIT_TEST :: "16 word \<Rightarrow> nat \<Rightarrow> bool" where
  "EBIT_TEST flag b = bit flag b"

text \<open>
  The functions \<open>storeOpen\<close>, \<open>cbdataLock\<close>, \<open>cbdataUnlock\<close>, the call through a
  client's function pointer and the bit number \<open>ENTRY_VALIDATED\<close> are parameters of the
  model. Each function is an arbitrary transformer of the whole state that returns;
  \<open>storeOpen\<close> also returns the handle, which may be \<open>NULL\<close>. \<open>storeOpen\<close> is always
  called with the two callbacks of this file, so they are not arguments here.
\<close>

record 'r squid_h =
  ENTRY_VALIDATED :: nat
  storeOpen :: "entry_ptr \<Rightarrow> client_ptr \<Rightarrow> 'r world_scheme \<Rightarrow> sio_ptr option \<times> 'r world_scheme"
  cbdataLock :: "sio_ptr option \<Rightarrow> 'r world_scheme \<Rightarrow> 'r world_scheme"
  cbdataUnlock :: "sio_ptr option \<Rightarrow> 'r world_scheme \<Rightarrow> 'r world_scheme"
  STCB_call :: "STCB \<Rightarrow> cbdata_ptr \<Rightarrow> buf_ptr \<Rightarrow> int \<Rightarrow> 'r world_scheme \<Rightarrow> 'r world_scheme"

subsection \<open>Assignments through pointers\<close>

definition set_swapin_sio :: "client_ptr \<Rightarrow> sio_ptr option \<Rightarrow> 'r world_scheme \<Rightarrow> 'r world_scheme" where
  \<comment> \<open>\<open>sc->swapin_sio = v\<close>\<close>
  "set_swapin_sio sc v s = s\<lparr>clients := (clients s)(sc := (clients s sc)\<lparr>swapin_sio := v\<rparr>)\<rparr>"

definition set_callback :: "client_ptr \<Rightarrow> STCB option \<Rightarrow> 'r world_scheme \<Rightarrow> 'r world_scheme" where
  \<comment> \<open>\<open>sc->callback = v\<close>\<close>
  "set_callback sc v s = s\<lparr>clients := (clients s)(sc := (clients s sc)\<lparr>callback := v\<rparr>)\<rparr>"

definition set_swap_filen :: "entry_ptr \<Rightarrow> int \<Rightarrow> 'r world_scheme \<Rightarrow> 'r world_scheme" where
  \<comment> \<open>\<open>e->swap_filen = v\<close>\<close>
  "set_swap_filen e v s = s\<lparr>entries := (entries s)(e := (entries s e)\<lparr>swap_filen := v\<rparr>)\<rparr>"

definition set_swap_dirn :: "entry_ptr \<Rightarrow> int \<Rightarrow> 'r world_scheme \<Rightarrow> 'r world_scheme" where
  \<comment> \<open>\<open>e->swap_dirn = v\<close>\<close>
  "set_swap_dirn e v s = s\<lparr>entries := (entries s)(e := (entries s e)\<lparr>swap_dirn := v\<rparr>)\<rparr>"

text \<open>
  The increment of the counter is an addition of 32-bit words: it wraps, so that
  \<open>INT_MAX\<close> (2147483647) becomes \<open>INT_MIN\<close> (-2147483648), as the two's-complement
  machine does where the C standard leaves the signed overflow undefined.
\<close>

definition swap_ins_incr :: "'r world_scheme \<Rightarrow> 'r world_scheme" where
  \<comment> \<open>\<open>statCounter.swap.ins++\<close>\<close>
  "swap_ins_incr s = s\<lparr>statCounter_swap_ins := statCounter_swap_ins s + 1\<rparr>"

subsection \<open>The three functions\<close>

text \<open>
  \<open>storeSwapInStart\<close>, lines 41 to 67. The \<open>debug\<close> calls only write to the log and
  are left out.
\<close>

definition storeSwapInStart :: "'r squid_h \<Rightarrow> client_ptr \<Rightarrow> 'r world_scheme \<Rightarrow> error + 'r world_scheme" where
  "storeSwapInStart h sc s =
     (let e = entry (clients s sc) in
      if mem_status (entries s e) \<noteq> NOT_IN_MEMORY then Inl Assert_mem_status
      else if \<not> EBIT_TEST (flags (entries s e)) (ENTRY_VALIDATED h) then Inr s
      else if swap_status (entries s e) \<noteq> SWAPOUT_WRITING
              \<and> swap_status (entries s e) \<noteq> SWAPOUT_DONE then Inr s
      else if swap_filen (entries s e) < 0 then Inr s
      else if mem_obj (entries s e) = None then Inl Assert_mem_obj
      else
        (let (sio, s1) = storeOpen h e sc s;
             s2 = set_swapin_sio sc sio s1
         in Inr (cbdataLock h (swapin_sio (clients s2 sc)) s2)))"

text \<open>
  \<open>storeSwapInFileClosed\<close>, lines 69 to 84. \<open>data\<close> is the client, \<open>sio\<close> the handle
  that closed.
\<close>

definition storeSwapInFileClosed ::
  "'r squid_h \<Rightarrow> client_ptr \<Rightarrow> int \<Rightarrow> sio_ptr option \<Rightarrow> 'r world_scheme \<Rightarrow> error + 'r world_scheme" where
  "storeSwapInFileClosed h data errflag sio s =
     (let sc = data;
          s1 = cbdataUnlock h sio s;
          s2 = set_swapin_sio sc None s1
      in case callback (clients s2 sc) of
           None \<Rightarrow> Inr (swap_ins_incr s2)
         | Some cb \<Rightarrow>
             if \<not> errflag \<le> 0 then Inl Assert_errflag
             else
               (let s3 = set_callback sc None s2;
                    s4 = STCB_call h cb (callback_data (clients s3 sc))
                           (copy_buf (clients s3 sc)) errflag s3
                in Inr (swap_ins_incr s4)))"

text \<open>
  \<open>storeSwapInFileNotify\<close>, lines 86 to 96. It calls nothing but \<open>debug\<close>, so it takes
  no external function and cannot fail.
\<close>

definition storeSwapInFileNotify ::
  "client_ptr \<Rightarrow> int \<Rightarrow> sio_ptr \<Rightarrow> 'r world_scheme \<Rightarrow> 'r world_scheme" where
  "storeSwapInFileNotify data errflag sio s =
     (let sc = data;
          e = entry (clients s sc);
          s1 = set_swap_filen e (sio_swap_filen (sios s sio)) s;
          s2 = set_swap_dirn e (sio_swap_dirn (sios s1 sio)) s1
      in s2)"

subsection \<open>Assumptions on the external functions\<close>

text \<open>
  One of the properties below speaks of what the functions of this file do to the
  entries themselves. It is stated for external functions that leave the entries alone.
\<close>

definition externals_keep_entries :: "'r squid_h \<Rightarrow> bool" where
  "externals_keep_entries h \<longleftrightarrow>
     (\<forall>e sc s. entries (snd (storeOpen h e sc s)) = entries s)
   \<and> (\<forall>p s. entries (cbdataLock h p s) = entries s)
   \<and> (\<forall>p s. entries (cbdataUnlock h p s) = entries s)
   \<and> (\<forall>cb d b n s. entries (STCB_call h cb d b n s) = entries s)"

subsection \<open>Concrete states\<close>

text \<open>
  A state to run the functions on. Its extension records what the external functions
  did: every delivery to a client callback, with its three arguments, and the balance
  of \<open>cbdataLock\<close> and \<open>cbdataUnlock\<close> calls.
\<close>

record probe = world +
  delivered :: "(STCB \<times> cbdata_ptr \<times> buf_ptr \<times> int) list"
  locks :: int

text \<open>
  A validated entry (bit 10 of the flags), swapped out at locator (0, 5), not in memory.
\<close>

definition entry0 :: StoreEntry where
  "entry0 = \<lparr>mem_status = NOT_IN_MEMORY, swap_status = SWAPOUT_DONE, flags = 1024,
             swap_filen = 5, swap_dirn = 0, mem_obj = Some 1\<rparr>"

text \<open>A client of entry 0 with a pending callback and no handle yet.\<close>

definition client0 :: store_client where
  "client0 = \<lparr>entry = 0, callback = Some 3, callback_data = 4, copy_buf = 9,
              swapin_sio = None\<rparr>"

text \<open>Every handle of the state carries the locator (1, 7).\<close>

definition world0 :: probe where
  "world0 = \<lparr>entries = (\<lambda>_. entry0), clients = (\<lambda>_. client0),
             sios = (\<lambda>_. \<lparr>sio_swap_filen = 7, sio_swap_dirn = 1\<rparr>),
             statCounter_swap_ins = 0, delivered = [], locks = 0\<rparr>"

text \<open>Variants of a state: every entry, or every client, replaced by a given one.\<close>

definition with_entry :: "StoreEntry \<Rightarrow> probe \<Rightarrow> probe" where
  "with_entry E w = w\<lparr>entries := \<lambda>_. E\<rparr>"

definition with_client :: "store_client \<Rightarrow> probe \<Rightarrow> probe" where
  "with_client c w = w\<lparr>clients := \<lambda>_. c\<rparr>"

text \<open>The same state while a swap-in is under way: the client holds handle 7.\<close>

definition world1 :: probe where
  "world1 = with_client (client0\<lparr>swapin_sio := Some 7\<rparr>) world0"

text \<open>The state of a swap-in whose client has cancelled: no callback is pending.\<close>

definition world2 :: probe where
  "world2 = with_client (client0\<lparr>callback := None, swapin_sio := Some 7\<rparr>) world0"

definition extern0 :: "unit probe_ext squid_h" where
  "extern0 = \<lparr>ENTRY_VALIDATED = 10,
              storeOpen = (\<lambda>e sc s. (Some 7, s)),
              cbdataLock = (\<lambda>p s. s\<lparr>locks := locks s + 1\<rparr>),
              cbdataUnlock = (\<lambda>p s. s\<lparr>locks := locks s - 1\<rparr>),
              STCB_call = (\<lambda>cb d b n s. s\<lparr>delivered := delivered s @ [(cb, d, b, n)]\<rparr>)\<rparr>"

text \<open>
  A client callback that re-enters the store: it records its delivery and then runs a
  second close on client 0 before it returns.
\<close>

definition reenter :: "STCB \<Rightarrow> cbdata_ptr \<Rightarrow> buf_ptr \<Rightarrow> int \<Rightarrow> probe \<Rightarrow> probe" where
  "reenter cb d b n s =
     (let s1 = s\<lparr>delivered := delivered s @ [(cb, d, b, n)]\<rparr>
      in case storeSwapInFileClosed extern0 0 n None s1 of Inr s2 \<Rightarrow> s2 | Inl _ \<Rightarrow> s1)"

text \<open>
  A client callback that writes the counter itself: it records its delivery and sets
  \<open>statCounter.swap.ins\<close> to 10.
\<close>

definition counter_to_ten :: "STCB \<Rightarrow> cbdata_ptr \<Rightarrow> buf_ptr \<Rightarrow> int \<Rightarrow> probe \<Rightarrow> probe" where
  "counter_to_ten cb d b n s =
     s\<lparr>statCounter_swap_ins := 10, delivered := delivered s @ [(cb, d, b, n)]\<rparr>"

text \<open>The state of a swap-in with the counter at \<open>INT_MAX\<close>.\<close>

definition world3 :: probe where
  "world3 = world1\<lparr>statCounter_swap_ins := 2147483647\<rparr>"

lemmas model_defs = storeSwapInStart_def storeSwapInFileClosed_def storeSwapInFileNotify_def
  set_swapin_sio_def set_callback_def set_swap_filen_def set_swap_dirn_def swap_ins_incr_def
  EBIT_TEST_def Let_def

lemmas probe_defs = entry0_def client0_def world0_def world1_def world2_def world3_def
  extern0_def
  with_entry_def with_client_def

section \<open>Properties of storeSwapInFileNotify\<close>

text \<open>
  C9. \<open>storeSwapInFileNotify\<close> changes nothing but the two locator fields of the
  client's entry, which it copies from the handle: the state after the call is the state
  before with \<open>swap_filen\<close> and \<open>swap_dirn\<close> of that one entry replaced. Every other
  field of that entry (\<open>swap_status\<close>, \<open>mem_status\<close>, \<open>flags\<close>, \<open>mem_obj\<close>), every
  other entry, every client (so \<open>callback\<close> and \<open>swapin_sio\<close>), every handle and the
  counter are as before. The function has no access to a client callback, so it delivers
  no bytes.
\<close>

theorem storeSwapInFileNotify_frame:
  "(let e = entry (clients s data);
        s' = storeSwapInFileNotify data errflag sio s
    in s' = s\<lparr>entries := (entries s)(e := (entries s e)
                 \<lparr>swap_filen := sio_swap_filen (sios s sio),
                  swap_dirn := sio_swap_dirn (sios s sio)\<rparr>)\<rparr>
       \<and> swap_status (entries s' e) = swap_status (entries s e)
       \<and> mem_status (entries s' e) = mem_status (entries s e)
       \<and> flags (entries s' e) = flags (entries s e)
       \<and> mem_obj (entries s' e) = mem_obj (entries s e)
       \<and> clients s' = clients s
       \<and> sios s' = sios s
       \<and> statCounter_swap_ins s' = statCounter_swap_ins s
       \<and> world.more s' = world.more s)"
  by (simp add: storeSwapInFileNotify_def set_swap_filen_def set_swap_dirn_def Let_def)

text \<open>On the concrete state: only entry 0 changes, from locator (0, 5) to (1, 7).\<close>

theorem storeSwapInFileNotify_frame_witness:
  "storeSwapInFileNotify 0 0 7 world1 =
     world1\<lparr>entries := (entries world1)(0 := entry0\<lparr>swap_filen := 7, swap_dirn := 1\<rparr>)\<rparr>"
  using storeSwapInFileNotify_frame [of world1 0 0 7]
  by (simp add: Let_def probe_defs)

text \<open>
  C1, as stated, fails: the entry of the concrete state has the locator (0, 5) assigned,
  the handle carries (1, 7), and after \<open>storeSwapInFileNotify\<close> the entry's locator is
  (1, 7).
\<close>

theorem locator_overwritten_counterexample:
  "entry (clients world1 0) = 0
   \<and> (swap_dirn (entries world1 0), swap_filen (entries world1 0)) = (0, 5)
   \<and> (swap_dirn (entries (storeSwapInFileNotify 0 0 7 world1) 0),
      swap_filen (entries (storeSwapInFileNotify 0 0 7 world1) 0)) = (1, 7)"
  by (simp add: model_defs probe_defs)

lemma keep_entries_storeOpen:
  "externals_keep_entries h \<Longrightarrow> storeOpen h e sc s = (x, s1) \<Longrightarrow> entries s1 = entries s"
  unfolding externals_keep_entries_def by (metis snd_conv)

lemma keep_entries_Start:
  assumes k: "externals_keep_entries h" and r: "storeSwapInStart h sc s = Inr s'"
  shows "entries s' = entries s"
proof -
  obtain x s1 where o: "storeOpen h (entry (clients s sc)) sc s = (x, s1)"
    by (cases "storeOpen h (entry (clients s sc)) sc s")
  have e1: "entries s1 = entries s"
    using keep_entries_storeOpen [OF k o] .
  have lock: "\<And>p t. entries (cbdataLock h p t) = entries t"
    using k unfolding externals_keep_entries_def by blast
  show ?thesis
    using r e1 lock o
    by (auto simp: storeSwapInStart_def set_swapin_sio_def Let_def split: if_splits)
qed

lemma keep_entries_Closed:
  assumes k: "externals_keep_entries h"
    and r: "storeSwapInFileClosed h data errflag osio s = Inr s'"
  shows "entries s' = entries s"
proof -
  have u: "\<And>p t. entries (cbdataUnlock h p t) = entries t"
    and c: "\<And>cb d b n t. entries (STCB_call h cb d b n t) = entries t"
    using k unfolding externals_keep_entries_def by blast+
  show ?thesis
    using r u c
    by (auto simp: storeSwapInFileClosed_def set_swapin_sio_def set_callback_def
          swap_ins_incr_def Let_def split: if_splits option.splits)
qed

text \<open>
  C1, amended. The locator of an entry is written by \<open>storeSwapInFileNotify\<close>, which
  sets it to the handle's \<open>(swap_dirn, swap_filen)\<close> whatever it was before; an assigned
  locator survives the notification exactly when the handle carries the same one. The
  other two functions contain no assignment to an entry: when the external functions
  they call leave the entries alone, \<open>storeSwapInStart\<close> and \<open>storeSwapInFileClosed\<close>
  return with every entry, and so every locator, unchanged.
\<close>

theorem locator_written_by_notify_only:
  "(let e = entry (clients s data);
        s' = storeSwapInFileNotify data errflag sio s
    in swap_dirn (entries s' e) = sio_swap_dirn (sios s sio)
     \<and> swap_filen (entries s' e) = sio_swap_filen (sios s sio)
     \<and> ((swap_dirn (entries s' e), swap_filen (entries s' e))
          = (swap_dirn (entries s e), swap_filen (entries s e))
        \<longleftrightarrow> (sio_swap_dirn (sios s sio), sio_swap_filen (sios s sio))
          = (swap_dirn (entries s e), swap_filen (entries s e))))
   \<and> (externals_keep_entries h \<longrightarrow>
        (case storeSwapInStart h sc s of Inr s' \<Rightarrow> entries s' = entries s | Inl _ \<Rightarrow> True)
      \<and> (case storeSwapInFileClosed h data errflag osio s of
            Inr s' \<Rightarrow> entries s' = entries s | Inl _ \<Rightarrow> True))"
proof -
  have notify:
    "swap_dirn (entries (storeSwapInFileNotify data errflag sio s) (entry (clients s data)))
       = sio_swap_dirn (sios s sio)
     \<and> swap_filen (entries (storeSwapInFileNotify data errflag sio s) (entry (clients s data)))
       = sio_swap_filen (sios s sio)"
    by (simp add: storeSwapInFileNotify_def set_swap_filen_def set_swap_dirn_def Let_def)
  have rest: "externals_keep_entries h \<Longrightarrow>
        (case storeSwapInStart h sc s of Inr s' \<Rightarrow> entries s' = entries s | Inl _ \<Rightarrow> True)
      \<and> (case storeSwapInFileClosed h data errflag osio s of
            Inr s' \<Rightarrow> entries s' = entries s | Inl _ \<Rightarrow> True)"
    by (auto split: sum.splits dest: keep_entries_Start keep_entries_Closed)
  show ?thesis
    using notify rest by (simp add: Let_def)
qed

text \<open>
  On the concrete states: the notification moves entry 0 from (0, 5) to (1, 7); a start
  that opens a handle and a close that delivers leave the entries as they were.
\<close>

theorem locator_written_by_notify_only_witness:
  "externals_keep_entries extern0
   \<and> swap_dirn (entries (storeSwapInFileNotify 0 0 7 world1) 0) = 1
   \<and> swap_filen (entries (storeSwapInFileNotify 0 0 7 world1) 0) = 7
   \<and> storeSwapInStart extern0 0 world1 = Inr (world1\<lparr>locks := 1\<rparr>)
   \<and> entries (world1\<lparr>locks := 1\<rparr>) = entries world1
   \<and> storeSwapInFileClosed extern0 0 0 (Some 7) world1
       = Inr (world1\<lparr>clients := (clients world1)(0 := client0\<lparr>callback := None\<rparr>),
                     statCounter_swap_ins := 1, delivered := [(3, 4, 9, 0)], locks := - 1\<rparr>)
   \<and> entries (world1\<lparr>clients := (clients world1)(0 := client0\<lparr>callback := None\<rparr>),
                      statCounter_swap_ins := 1, delivered := [(3, 4, 9, 0)], locks := - 1\<rparr>)
       = entries world1"
proof -
  have k: "externals_keep_entries extern0"
    by (simp add: externals_keep_entries_def extern0_def)
  have a: "storeSwapInStart extern0 0 world1 = Inr (world1\<lparr>locks := 1\<rparr>)"
    by (simp add: model_defs probe_defs fun_eq_iff)
  have b: "storeSwapInFileClosed extern0 0 0 (Some 7) world1
       = Inr (world1\<lparr>clients := (clients world1)(0 := client0\<lparr>callback := None\<rparr>),
                     statCounter_swap_ins := 1, delivered := [(3, 4, 9, 0)], locks := - 1\<rparr>)"
    by (simp add: model_defs probe_defs fun_eq_iff)
  have v: "entry (clients world1 0) = 0" "sio_swap_dirn (sios world1 7) = 1"
    "sio_swap_filen (sios world1 7) = 7"
    by (simp_all add: probe_defs)
  show ?thesis
    using locator_written_by_notify_only [of world1 0 0 7 extern0 0 "Some 7"] k a b v
    by (simp add: Let_def)
qed

section \<open>Properties of storeSwapInStart\<close>

text \<open>
  C2, as stated, fails for three of the four preconditions: with an entry that is not in
  memory, a call on a not-validated entry, on an entry with \<open>swap_status\<close> NONE and on an
  entry with \<open>swap_filen = -1\<close> each returns normally, with the state it was given.
\<close>

theorem storeSwapInStart_recoverable_counterexample:
  "storeSwapInStart extern0 0 (with_entry (entry0\<lparr>flags := 0\<rparr>) world0)
     = Inr (with_entry (entry0\<lparr>flags := 0\<rparr>) world0)
   \<and> storeSwapInStart extern0 0 (with_entry (entry0\<lparr>swap_status := SWAPOUT_NONE\<rparr>) world0)
     = Inr (with_entry (entry0\<lparr>swap_status := SWAPOUT_NONE\<rparr>) world0)
   \<and> storeSwapInStart extern0 0 (with_entry (entry0\<lparr>swap_filen := - 1\<rparr>) world0)
     = Inr (with_entry (entry0\<lparr>swap_filen := - 1\<rparr>) world0)"
  by (simp add: model_defs probe_defs)

text \<open>
  C2, amended. Of the four preconditions of \<open>storeSwapInStart\<close> only the first is checked
  by an assertion: a call on an entry that is in memory stops with the fatal assertion
  failure of line 45. For an entry that is not in memory, a missing VALIDATED flag, a
  \<open>swap_status\<close> other than WRITING and DONE, or a negative \<open>swap_filen\<close> make the call
  return normally, the state unchanged.
\<close>

theorem storeSwapInStart_precondition_outcomes:
  "(let E = entries s (entry (clients s sc))
    in (mem_status E \<noteq> NOT_IN_MEMORY \<longrightarrow> storeSwapInStart h sc s = Inl Assert_mem_status)
     \<and> (mem_status E = NOT_IN_MEMORY
          \<and> (\<not> EBIT_TEST (flags E) (ENTRY_VALIDATED h)
             \<or> (swap_status E \<noteq> SWAPOUT_WRITING \<and> swap_status E \<noteq> SWAPOUT_DONE)
             \<or> swap_filen E < 0)
        \<longrightarrow> storeSwapInStart h sc s = Inr s))"
proof -
  let ?E = "entries s (entry (clients s sc))"
  have in_memory: "storeSwapInStart h sc s = Inl Assert_mem_status"
    if "mem_status ?E \<noteq> NOT_IN_MEMORY"
    using that by (simp add: storeSwapInStart_def Let_def)
  have not_validated: "storeSwapInStart h sc s = Inr s"
    if "mem_status ?E = NOT_IN_MEMORY" "\<not> EBIT_TEST (flags ?E) (ENTRY_VALIDATED h)"
    using that by (simp add: storeSwapInStart_def Let_def)
  have bad_status: "storeSwapInStart h sc s = Inr s"
    if "mem_status ?E = NOT_IN_MEMORY"
      "swap_status ?E \<noteq> SWAPOUT_WRITING \<and> swap_status ?E \<noteq> SWAPOUT_DONE"
    using that by (simp add: storeSwapInStart_def Let_def)
  have no_locator: "storeSwapInStart h sc s = Inr s"
    if "mem_status ?E = NOT_IN_MEMORY" "swap_filen ?E < 0"
    using that by (simp add: storeSwapInStart_def Let_def)
  show ?thesis
    unfolding Let_def using in_memory not_validated bad_status no_locator by blast
qed

theorem storeSwapInStart_precondition_outcomes_witness:
  "storeSwapInStart extern0 0 (with_entry (entry0\<lparr>mem_status := IN_MEMORY\<rparr>) world0)
     = Inl Assert_mem_status
   \<and> storeSwapInStart extern0 0 (with_entry (entry0\<lparr>swap_filen := - 1\<rparr>) world0)
     = Inr (with_entry (entry0\<lparr>swap_filen := - 1\<rparr>) world0)"
  using storeSwapInStart_precondition_outcomes
          [of "with_entry (entry0\<lparr>mem_status := IN_MEMORY\<rparr>) world0" 0 extern0]
        storeSwapInStart_precondition_outcomes
          [of "with_entry (entry0\<lparr>swap_filen := - 1\<rparr>) world0" 0 extern0]
  by (simp add: Let_def probe_defs)

text \<open>
  C3, as stated, fails on one kind of entry: a not-validated entry that is in memory.
  The assertion of line 45 comes before the test of the flag, so the call does not
  return.
\<close>

theorem storeSwapInStart_in_memory_counterexample:
  "\<not> EBIT_TEST
       (flags (entries (with_entry (entry0\<lparr>flags := 0, mem_status := IN_MEMORY\<rparr>) world0) 0))
       (ENTRY_VALIDATED extern0)
   \<and> storeSwapInStart extern0 0
        (with_entry (entry0\<lparr>flags := 0, mem_status := IN_MEMORY\<rparr>) world0)
       = Inl Assert_mem_status"
  by (simp add: model_defs probe_defs)

text \<open>
  C3, amended. A not-validated entry is never swapped in. When the client's entry does
  not have the VALIDATED flag and is not in memory, \<open>storeSwapInStart\<close> returns with the
  state unchanged: no external function has run, so no handle is open, and
  \<open>sc->swapin_sio\<close> is what it was. When the entry is in memory the call stops at the
  assertion of line 45, before anything is opened or assigned.
\<close>

theorem storeSwapInStart_not_validated:
  assumes "\<not> EBIT_TEST (flags (entries s (entry (clients s sc)))) (ENTRY_VALIDATED h)"
  shows "storeSwapInStart h sc s =
           (if mem_status (entries s (entry (clients s sc))) = NOT_IN_MEMORY
            then Inr s else Inl Assert_mem_status)"
  using assms by (simp add: storeSwapInStart_def Let_def)

theorem storeSwapInStart_not_validated_witness:
  "\<not> EBIT_TEST (flags (entries (with_entry (entry0\<lparr>flags := 0\<rparr>) world0) 0))
       (ENTRY_VALIDATED extern0)
   \<and> storeSwapInStart extern0 0 (with_entry (entry0\<lparr>flags := 0\<rparr>) world0)
       = Inr (with_entry (entry0\<lparr>flags := 0\<rparr>) world0)"
proof -
  have v: "\<not> EBIT_TEST
              (flags (entries (with_entry (entry0\<lparr>flags := 0\<rparr>) world0)
                 (entry (clients (with_entry (entry0\<lparr>flags := 0\<rparr>) world0) 0))))
              (ENTRY_VALIDATED extern0)"
    by (simp add: EBIT_TEST_def probe_defs)
  show ?thesis
    using storeSwapInStart_not_validated [OF v] by (simp add: EBIT_TEST_def probe_defs)
qed

text \<open>
  C4, as stated, fails on one kind of entry: an entry with \<open>swap_status\<close> NONE that is in
  memory. Nothing is opened, but the call does not return: it stops at the assertion of
  line 45.
\<close>

theorem storeSwapInStart_in_memory_none_counterexample:
  "swap_status
     (entries (with_entry (entry0\<lparr>swap_status := SWAPOUT_NONE, mem_status := IN_MEMORY\<rparr>) world0) 0)
     = SWAPOUT_NONE
   \<and> storeSwapInStart extern0 0
        (with_entry (entry0\<lparr>swap_status := SWAPOUT_NONE, mem_status := IN_MEMORY\<rparr>) world0)
       = Inl Assert_mem_status"
  by (simp add: model_defs probe_defs)

text \<open>
  C4, amended. An entry with \<open>swap_status\<close> NONE is never the target of a swap-in read.
  Unless the entry's \<open>swap_status\<close> is WRITING or DONE and its \<open>swap_filen\<close> is not
  negative, \<open>storeSwapInStart\<close> opens nothing: it returns with the state unchanged when
  the entry is not in memory, and stops at the assertion of line 45 when it is. It does
  open a handle when the entry is not in memory, validated, has such a status and
  locator, and has a \<open>mem_obj\<close>: the result is then the state after \<open>storeOpen\<close>, with
  the returned handle stored in \<open>sc->swapin_sio\<close> and locked.
\<close>

theorem storeSwapInStart_opens_only_swapped_out:
  "(let e = entry (clients s sc); E = entries s e
    in (\<not> ((swap_status E = SWAPOUT_WRITING \<or> swap_status E = SWAPOUT_DONE) \<and> 0 \<le> swap_filen E)
          \<longrightarrow> storeSwapInStart h sc s =
                (if mem_status E = NOT_IN_MEMORY then Inr s else Inl Assert_mem_status))
     \<and> (mem_status E = NOT_IN_MEMORY \<and> EBIT_TEST (flags E) (ENTRY_VALIDATED h)
          \<and> (swap_status E = SWAPOUT_WRITING \<or> swap_status E = SWAPOUT_DONE)
          \<and> 0 \<le> swap_filen E \<and> mem_obj E \<noteq> None
          \<longrightarrow> storeSwapInStart h sc s =
                Inr (cbdataLock h (fst (storeOpen h e sc s))
                       (set_swapin_sio sc (fst (storeOpen h e sc s)) (snd (storeOpen h e sc s))))))"
proof -
  let ?e = "entry (clients s sc)"
  let ?E = "entries s ?e"
  have closed_door: "storeSwapInStart h sc s =
      (if mem_status ?E = NOT_IN_MEMORY then Inr s else Inl Assert_mem_status)"
    if "\<not> ((swap_status ?E = SWAPOUT_WRITING \<or> swap_status ?E = SWAPOUT_DONE)
            \<and> 0 \<le> swap_filen ?E)"
  proof (cases "swap_status ?E = SWAPOUT_WRITING \<or> swap_status ?E = SWAPOUT_DONE")
    case True
    with that have "swap_filen ?E < 0"
      by simp
    then show ?thesis
      by (simp add: storeSwapInStart_def Let_def)
  next
    case False
    then show ?thesis
      by (simp add: storeSwapInStart_def Let_def)
  qed
  have opens: "storeSwapInStart h sc s =
      Inr (cbdataLock h (fst (storeOpen h ?e sc s))
             (set_swapin_sio sc (fst (storeOpen h ?e sc s)) (snd (storeOpen h ?e sc s))))"
    if "mem_status ?E = NOT_IN_MEMORY" "EBIT_TEST (flags ?E) (ENTRY_VALIDATED h)"
      "swap_status ?E = SWAPOUT_WRITING \<or> swap_status ?E = SWAPOUT_DONE"
      "0 \<le> swap_filen ?E" "mem_obj ?E \<noteq> None"
    using that
    by (auto simp: storeSwapInStart_def set_swapin_sio_def Let_def split: prod.splits)
  show ?thesis
    unfolding Let_def using closed_door opens by blast
qed

theorem storeSwapInStart_opens_only_swapped_out_witness:
  "storeSwapInStart extern0 0 (with_entry (entry0\<lparr>swap_status := SWAPOUT_NONE\<rparr>) world0)
     = Inr (with_entry (entry0\<lparr>swap_status := SWAPOUT_NONE\<rparr>) world0)
   \<and> storeSwapInStart extern0 0 world0
     = Inr (world0\<lparr>clients := (clients world0)(0 := client0\<lparr>swapin_sio := Some 7\<rparr>), locks := 1\<rparr>)"
  using storeSwapInStart_opens_only_swapped_out
          [of "with_entry (entry0\<lparr>swap_status := SWAPOUT_NONE\<rparr>) world0" 0 extern0]
        storeSwapInStart_opens_only_swapped_out [of world0 0 extern0]
  by (simp add: Let_def probe_defs EBIT_TEST_def set_swapin_sio_def)

section \<open>Properties of storeSwapInFileClosed\<close>

text \<open>
  The function reads \<open>sc->callback\<close> on line 78, after \<open>cbdataUnlock\<close> has run; the
  pending callback of the properties below is the value read there.
\<close>

text \<open>
  C5. For \<open>errflag \<le> 0\<close>: \<open>sc->swapin_sio\<close> is cleared to \<open>NULL\<close> in the close callback,
  right after \<open>cbdataUnlock\<close>, and stays so in the state handed to the client callback.
  If a callback is pending, the function returns the state that one call of it, with the
  arguments \<open>sc->callback_data\<close>, \<open>sc->copy_buf\<close> and \<open>errflag\<close>, makes of that state,
  with the counter incremented: the callback is invoked once. If none is pending, it
  returns the cleaned-up state with the counter incremented.
\<close>

theorem storeSwapInFileClosed_delivers:
  assumes "errflag \<le> 0"
  shows "(let s2 = set_swapin_sio data None (cbdataUnlock h sio s);
              c = clients s2 data
          in swapin_sio c = None
           \<and> (case callback c of
                Some cb \<Rightarrow>
                  storeSwapInFileClosed h data errflag sio s =
                    Inr (swap_ins_incr (STCB_call h cb (callback_data c) (copy_buf c) errflag
                                          (set_callback data None s2)))
                  \<and> swapin_sio (clients (set_callback data None s2) data) = None
              | None \<Rightarrow> storeSwapInFileClosed h data errflag sio s = Inr (swap_ins_incr s2)))"
  using assms
  by (simp add: storeSwapInFileClosed_def set_swapin_sio_def set_callback_def Let_def
        split: option.splits)

text \<open>
  On the concrete state the record of deliveries holds one entry, with the callback's
  address 3, its data 4, the buffer 9 and the flag; the client's handle is gone.
\<close>

theorem storeSwapInFileClosed_delivers_witness:
  "(0::int) \<le> 0
   \<and> storeSwapInFileClosed extern0 0 0 (Some 7) world1
       = Inr (world1\<lparr>clients := (clients world1)(0 := client0\<lparr>callback := None\<rparr>),
                     statCounter_swap_ins := 1, delivered := [(3, 4, 9, 0)], locks := - 1\<rparr>)
   \<and> storeSwapInFileClosed extern0 0 (- 1) (Some 7) world1
       = Inr (world1\<lparr>clients := (clients world1)(0 := client0\<lparr>callback := None\<rparr>),
                     statCounter_swap_ins := 1, delivered := [(3, 4, 9, - 1)], locks := - 1\<rparr>)"
  using storeSwapInFileClosed_delivers [of 0 0 extern0 "Some 7" world1]
        storeSwapInFileClosed_delivers [of "- 1" 0 extern0 "Some 7" world1]
  by (simp add: Let_def probe_defs set_swapin_sio_def set_callback_def swap_ins_incr_def)

text \<open>
  C6, as stated, fails: with a pending callback and \<open>errflag = 1\<close> the assertion of line
  79 fails, the program stops, and the callback is not invoked.
\<close>

theorem storeSwapInFileClosed_positive_errflag_counterexample:
  "callback (clients world1 0) = Some 3
   \<and> storeSwapInFileClosed extern0 0 1 (Some 7) world1 = Inl Assert_errflag"
  by (simp add: model_defs probe_defs)

text \<open>
  C6, amended. With a pending callback, \<open>storeSwapInFileClosed\<close> passes \<open>errflag\<close>
  unchanged to that callback whenever \<open>errflag \<le> 0\<close>, zero or a negative code alike, in
  the one callback invocation the close makes. A positive \<open>errflag\<close> with a pending
  callback fails the assertion of line 79: the program stops and nothing is delivered.
\<close>

theorem storeSwapInFileClosed_errflag:
  assumes "callback (clients (cbdataUnlock h sio s) data) = Some cb"
  shows "storeSwapInFileClosed h data errflag sio s =
           (if errflag \<le> 0
            then (let s3 = set_callback data None (set_swapin_sio data None (cbdataUnlock h sio s))
                  in Inr (swap_ins_incr (STCB_call h cb (callback_data (clients s3 data))
                                           (copy_buf (clients s3 data)) errflag s3)))
            else Inl Assert_errflag)"
  using assms
  by (simp add: storeSwapInFileClosed_def set_swapin_sio_def set_callback_def Let_def)

theorem storeSwapInFileClosed_errflag_witness:
  "callback (clients (cbdataUnlock extern0 (Some 7) world1) 0) = Some 3
   \<and> storeSwapInFileClosed extern0 0 (- 2) (Some 7) world1
       = Inr (world1\<lparr>clients := (clients world1)(0 := client0\<lparr>callback := None\<rparr>),
                     statCounter_swap_ins := 1, delivered := [(3, 4, 9, - 2)], locks := - 1\<rparr>)
   \<and> storeSwapInFileClosed extern0 0 2 (Some 7) world1 = Inl Assert_errflag"
proof -
  have p: "callback (clients (cbdataUnlock extern0 (Some 7) world1) 0) = Some 3"
    by (simp add: probe_defs)
  show ?thesis
    using p storeSwapInFileClosed_errflag [OF p, of "- 2"]
      storeSwapInFileClosed_errflag [OF p, of 2]
    by (simp add: Let_def probe_defs set_swapin_sio_def set_callback_def swap_ins_incr_def)
qed

text \<open>
  C7. When the client's callback field is \<open>NULL\<close>, \<open>storeSwapInFileClosed\<close> delivers
  nothing: whatever the client callbacks of the program would do, and whatever the error
  flag, it returns the state left by \<open>cbdataUnlock(sio)\<close> with \<open>sc->swapin_sio\<close> set to
  \<open>NULL\<close> and the swap-in counter incremented.
\<close>

theorem storeSwapInFileClosed_no_callback:
  assumes "callback (clients (cbdataUnlock h sio s) data) = None"
  shows "storeSwapInFileClosed (h\<lparr>STCB_call := f\<rparr>) data errflag sio s =
           Inr (swap_ins_incr (set_swapin_sio data None (cbdataUnlock h sio s)))"
  using assms
  by (simp add: storeSwapInFileClosed_def set_swapin_sio_def Let_def)

text \<open>
  A cancelled client, a positive error flag: the record of deliveries stays empty, the
  handle is unlocked and dropped, the close is counted.
\<close>

theorem storeSwapInFileClosed_no_callback_witness:
  "callback (clients (cbdataUnlock extern0 (Some 7) world2) 0) = None
   \<and> storeSwapInFileClosed (extern0\<lparr>STCB_call := reenter\<rparr>) 0 1 (Some 7) world2
       = Inr (world2\<lparr>clients := (clients world2)
                                  (0 := client0\<lparr>callback := None, swapin_sio := None\<rparr>),
                     statCounter_swap_ins := 1, delivered := [], locks := - 1\<rparr>)"
proof -
  have p: "callback (clients (cbdataUnlock extern0 (Some 7) world2) 0) = None"
    by (simp add: probe_defs)
  show ?thesis
    using p storeSwapInFileClosed_no_callback [OF p, of reenter 1]
    by (simp add: probe_defs set_swapin_sio_def swap_ins_incr_def)
qed

text \<open>
  C8, as stated, fails: with a pending callback and the error flag 5 the call stops at
  the assertion of line 79; line 83 is not reached and the counter is not incremented.
\<close>

theorem storeSwapInFileClosed_no_count_counterexample:
  "statCounter_swap_ins world1 = 0
   \<and> callback (clients world1 0) = Some 3
   \<and> storeSwapInFileClosed extern0 0 5 None world1 = Inl Assert_errflag"
  by (simp add: model_defs probe_defs)

lemma sint_incr_c_int:
  "sint (x + 1 :: c_int) = (if sint x = 2147483647 then - 2147483648 else sint x + 1)"
proof -
  have step: "sint (x + 1) = signed_take_bit 31 (sint x + 1)"
    by (simp add: sint_word_add)
  show ?thesis
  proof (cases "sint x = 2147483647")
    case True
    then show ?thesis
      unfolding step by simp
  next
    case False
    have "- 2147483648 \<le> sint x" "sint x < 2147483648"
      using sint_ge [of x] sint_lt [of x] by simp_all
    with False have "- (2 ^ 31) \<le> sint x + 1" "sint x + 1 < 2 ^ 31"
      by simp_all
    then have "signed_take_bit 31 (sint x + 1) = sint x + 1"
      by (rule signed_take_bit_int_eq_self)
    with False show ?thesis
      unfolding step by simp
  qed
qed

text \<open>
  C8, amended. Every invocation of \<open>storeSwapInFileClosed\<close> that returns has executed
  \<open>statCounter.swap.ins++\<close> once, as its last statement, whether or not a client callback
  was delivered: with no callback pending the result is the cleaned-up state with the
  counter incremented, with a callback pending and \<open>errflag \<le> 0\<close> it is the state that
  the callback returned with the counter incremented. The counter on return is thus one
  more, as a 32-bit \<open>int\<close>, than it was just before line 83: one more as a number unless
  it was \<open>INT_MAX\<close>, which wraps to \<open>INT_MIN\<close>. The invocations that do not return are
  those with a pending callback and a positive error flag: they stop at the assertion of
  line 79 and count nothing.
\<close>

theorem storeSwapInFileClosed_counts:
  "(let s2 = set_swapin_sio data None (cbdataUnlock h sio s);
        c = clients s2 data
    in case callback c of
         None \<Rightarrow>
           storeSwapInFileClosed h data errflag sio s = Inr (swap_ins_incr s2)
       | Some cb \<Rightarrow>
           (if 0 < errflag
            then storeSwapInFileClosed h data errflag sio s = Inl Assert_errflag
            else storeSwapInFileClosed h data errflag sio s =
                   Inr (swap_ins_incr (STCB_call h cb (callback_data c) (copy_buf c) errflag
                                         (set_callback data None s2)))))
   \<and> swap_ins_incr t = t\<lparr>statCounter_swap_ins := statCounter_swap_ins t + 1\<rparr>
   \<and> sint (statCounter_swap_ins (swap_ins_incr t))
       = (if sint (statCounter_swap_ins t) = 2147483647 then - 2147483648
          else sint (statCounter_swap_ins t) + 1)"
proof -
  have run: "(let s2 = set_swapin_sio data None (cbdataUnlock h sio s);
        c = clients s2 data
    in case callback c of
         None \<Rightarrow>
           storeSwapInFileClosed h data errflag sio s = Inr (swap_ins_incr s2)
       | Some cb \<Rightarrow>
           (if 0 < errflag
            then storeSwapInFileClosed h data errflag sio s = Inl Assert_errflag
            else storeSwapInFileClosed h data errflag sio s =
                   Inr (swap_ins_incr (STCB_call h cb (callback_data c) (copy_buf c) errflag
                                         (set_callback data None s2)))))"
    by (simp add: storeSwapInFileClosed_def set_swapin_sio_def set_callback_def Let_def
          split: option.splits)
  have step: "swap_ins_incr t = t\<lparr>statCounter_swap_ins := statCounter_swap_ins t + 1\<rparr>"
    by (simp add: swap_ins_incr_def)
  have signed: "sint (statCounter_swap_ins (swap_ins_incr t))
       = (if sint (statCounter_swap_ins t) = 2147483647 then - 2147483648
          else sint (statCounter_swap_ins t) + 1)"
    using sint_incr_c_int [of "statCounter_swap_ins t"] by (simp add: swap_ins_incr_def)
  show ?thesis
    using run step signed by simp
qed

text \<open>
  On the concrete states. A callback that sets the counter to 10 leaves it at 11: the
  increment comes after the callback. With the re-entering callback the counter is 2,
  one for each close. A cancelled client is counted too, also with a positive flag. At
  \<open>INT_MAX\<close> the counter wraps. A pending callback with the flag 5 stops the call.
\<close>

theorem storeSwapInFileClosed_counts_witness:
  "storeSwapInFileClosed (extern0\<lparr>STCB_call := counter_to_ten\<rparr>) 0 0 None world1
     = Inr (world1\<lparr>clients := (clients world1)(0 := client0\<lparr>callback := None\<rparr>),
                   statCounter_swap_ins := 11, delivered := [(3, 4, 9, 0)], locks := - 1\<rparr>)
   \<and> storeSwapInFileClosed (extern0\<lparr>STCB_call := reenter\<rparr>) 0 0 None world1
     = Inr (world1\<lparr>clients := (clients world1)(0 := client0\<lparr>callback := None\<rparr>),
                   statCounter_swap_ins := 2, delivered := [(3, 4, 9, 0)], locks := - 2\<rparr>)
   \<and> storeSwapInFileClosed extern0 0 5 None world2
     = Inr (world2\<lparr>clients := (clients world2)
                                (0 := client0\<lparr>callback := None, swapin_sio := None\<rparr>),
                   statCounter_swap_ins := 1, locks := - 1\<rparr>)
   \<and> storeSwapInFileClosed extern0 0 0 None world3
     = Inr (world3\<lparr>clients := (clients world3)(0 := client0\<lparr>callback := None\<rparr>),
                   statCounter_swap_ins := 2147483648, delivered := [(3, 4, 9, 0)],
                   locks := - 1\<rparr>)
   \<and> sint (statCounter_swap_ins world3) = 2147483647
   \<and> sint (statCounter_swap_ins (swap_ins_incr world3)) = - 2147483648
   \<and> storeSwapInFileClosed extern0 0 5 None world1 = Inl Assert_errflag"
proof -
  have ten: "storeSwapInFileClosed (extern0\<lparr>STCB_call := counter_to_ten\<rparr>) 0 0 None world1
     = Inr (world1\<lparr>clients := (clients world1)(0 := client0\<lparr>callback := None\<rparr>),
                   statCounter_swap_ins := 11, delivered := [(3, 4, 9, 0)], locks := - 1\<rparr>)"
    using storeSwapInFileClosed_counts [of 0 "extern0\<lparr>STCB_call := counter_to_ten\<rparr>" None world1 0 world1]
    by (simp add: Let_def probe_defs counter_to_ten_def set_swapin_sio_def set_callback_def
          swap_ins_incr_def)
  have twice: "storeSwapInFileClosed (extern0\<lparr>STCB_call := reenter\<rparr>) 0 0 None world1
     = Inr (world1\<lparr>clients := (clients world1)(0 := client0\<lparr>callback := None\<rparr>),
                   statCounter_swap_ins := 2, delivered := [(3, 4, 9, 0)], locks := - 2\<rparr>)"
    using storeSwapInFileClosed_counts [of 0 "extern0\<lparr>STCB_call := reenter\<rparr>" None world1 0 world1]
    by (simp add: Let_def probe_defs reenter_def storeSwapInFileClosed_def set_swapin_sio_def
          set_callback_def swap_ins_incr_def)
  have cancelled: "storeSwapInFileClosed extern0 0 5 None world2
     = Inr (world2\<lparr>clients := (clients world2)
                                (0 := client0\<lparr>callback := None, swapin_sio := None\<rparr>),
                   statCounter_swap_ins := 1, locks := - 1\<rparr>)"
    using storeSwapInFileClosed_counts [of 0 extern0 None world2 5 world2]
    by (simp add: Let_def probe_defs set_swapin_sio_def swap_ins_incr_def)
  have full: "storeSwapInFileClosed extern0 0 0 None world3
     = Inr (world3\<lparr>clients := (clients world3)(0 := client0\<lparr>callback := None\<rparr>),
                   statCounter_swap_ins := 2147483648, delivered := [(3, 4, 9, 0)],
                   locks := - 1\<rparr>)"
    using storeSwapInFileClosed_counts [of 0 extern0 None world3 0 world3]
    by (simp add: Let_def probe_defs set_swapin_sio_def set_callback_def swap_ins_incr_def)
  have top: "sint (statCounter_swap_ins world3) = 2147483647"
    by (simp add: probe_defs)
  have wrap: "sint (statCounter_swap_ins (swap_ins_incr world3)) = - 2147483648"
  proof -
    have "sint (statCounter_swap_ins (swap_ins_incr world3))
        = (if sint (statCounter_swap_ins world3) = 2147483647 then - 2147483648
           else sint (statCounter_swap_ins world3) + 1)"
      using storeSwapInFileClosed_counts [of 0 extern0 None world3 0 world3] by blast
    then show ?thesis
      unfolding top by simp
  qed
  have stop: "storeSwapInFileClosed extern0 0 5 None world1 = Inl Assert_errflag"
    using storeSwapInFileClosed_counts [of 0 extern0 None world1 5 world1]
    by (simp add: Let_def probe_defs set_swapin_sio_def)
  show ?thesis
    using ten twice cancelled full top wrap stop by simp
qed

text \<open>
  C10. In a delivering invocation (a pending callback, \<open>errflag \<le> 0\<close>) the callback
  field is set to \<open>NULL\<close> before the callback is invoked: the state the callback runs in
  has an empty slot, and the close makes exactly one call of it, whatever the callback
  does. A close that the callback starts on the same client while it runs finds the slot
  empty and delivers nothing.
\<close>

theorem storeSwapInFileClosed_clears_callback_first:
  assumes "callback (clients (cbdataUnlock h sio s) data) = Some cb" and "errflag \<le> 0"
  shows "(let s3 = set_callback data None (set_swapin_sio data None (cbdataUnlock h sio s))
          in callback (clients s3 data) = None
           \<and> storeSwapInFileClosed (h\<lparr>STCB_call := f\<rparr>) data errflag sio s =
               Inr (swap_ins_incr (f cb (callback_data (clients s3 data))
                                      (copy_buf (clients s3 data)) errflag s3))
           \<and> (callback (clients (cbdataUnlock h sio' s3) data) = None \<longrightarrow>
                storeSwapInFileClosed (h\<lparr>STCB_call := f\<rparr>) data errflag' sio' s3 =
                  Inr (swap_ins_incr (set_swapin_sio data None (cbdataUnlock h sio' s3)))))"
  using assms
  by (simp add: storeSwapInFileClosed_def set_swapin_sio_def set_callback_def Let_def)

text \<open>
  With the re-entering callback on the concrete state: two closes ran (the counter is 2,
  two unlocks) and one delivery was made. The second close, run on the state the
  callback was given, delivers nothing.
\<close>

theorem storeSwapInFileClosed_clears_callback_first_witness:
  "callback (clients (cbdataUnlock extern0 (Some 7) world1) 0) = Some 3 \<and> (0::int) \<le> 0
   \<and> storeSwapInFileClosed (extern0\<lparr>STCB_call := reenter\<rparr>) 0 0 (Some 7) world1
       = Inr (world1\<lparr>clients := (clients world1)(0 := client0\<lparr>callback := None\<rparr>),
                     statCounter_swap_ins := 2, delivered := [(3, 4, 9, 0)], locks := - 2\<rparr>)
   \<and> storeSwapInFileClosed (extern0\<lparr>STCB_call := reenter\<rparr>) 0 0 None
        (world1\<lparr>clients := (clients world1)(0 := client0\<lparr>callback := None\<rparr>), locks := - 1\<rparr>)
       = Inr (world1\<lparr>clients := (clients world1)(0 := client0\<lparr>callback := None\<rparr>),
                     statCounter_swap_ins := 1, delivered := [], locks := - 2\<rparr>)"
proof -
  have p: "callback (clients (cbdataUnlock extern0 (Some 7) world1) 0) = Some 3"
    by (simp add: probe_defs)
  have q: "(0::int) \<le> 0"
    by simp
  have s3: "set_callback 0 None (set_swapin_sio 0 None (cbdataUnlock extern0 (Some 7) world1))
       = world1\<lparr>clients := (clients world1)(0 := client0\<lparr>callback := None\<rparr>), locks := - 1\<rparr>"
    by (simp add: probe_defs set_swapin_sio_def set_callback_def)
  have outer: "storeSwapInFileClosed (extern0\<lparr>STCB_call := reenter\<rparr>) 0 0 (Some 7) world1
       = Inr (world1\<lparr>clients := (clients world1)(0 := client0\<lparr>callback := None\<rparr>),
                     statCounter_swap_ins := 2, delivered := [(3, 4, 9, 0)], locks := - 2\<rparr>)"
    using storeSwapInFileClosed_clears_callback_first [OF p q, of reenter None 0]
    by (simp add: Let_def reenter_def storeSwapInFileClosed_def probe_defs
          set_swapin_sio_def set_callback_def swap_ins_incr_def)
  have inner: "storeSwapInFileClosed (extern0\<lparr>STCB_call := reenter\<rparr>) 0 0 None
        (world1\<lparr>clients := (clients world1)(0 := client0\<lparr>callback := None\<rparr>), locks := - 1\<rparr>)
       = Inr (world1\<lparr>clients := (clients world1)(0 := client0\<lparr>callback := None\<rparr>),
                     statCounter_swap_ins := 1, delivered := [], locks := - 2\<rparr>)"
    using storeSwapInFileClosed_clears_callback_first [OF p q, of reenter None 0]
    unfolding s3 Let_def
    by (simp add: probe_defs set_swapin_sio_def swap_ins_incr_def)
  show ?thesis
    using p q outer inner by simp
qed

end
